theory Spec2Isabelle
  imports Main
begin

text \<open>
  A model of the SMTP honeypot \<^verbatim>\<open>honeymail\<close>: the session loop and the listener of
  \<^verbatim>\<open>smtpd/server.go\<close> and the JSON output of the HTTP API, as functions on explicit
  states, with the properties of the specification that they decide.
\<close>

section \<open>The HTTP API controller (package api)\<close>












section \<open>Reading from the connection (Go's net/textproto)\<close>

text \<open>
  The session reads through a \<^verbatim>\<open>textproto.Reader\<close>. Its two operations used by the
  server are part of Go's standard library, not of this repository; they are written
  here over the bytes still unread on the connection, as the library documents them.

  \<^verbatim>\<open>ReadLine\<close> returns the bytes up to the next line feed without the line end
  (\<open>\r\n\<close> or \<open>\n\<close>); when the input ends first it returns what is left (the server
  ignores the error that may come with it).

  \<^verbatim>\<open>ReadDotBytes\<close> decodes a dot-encoded block with the state machine of
  \<^verbatim>\<open>dotReader.Read\<close>: it elides a leading dot, rewrites each \<open>\r\n\<close> into \<open>\n\<close>,
  stops after the line holding a lone dot, and fails (\<^verbatim>\<open>io.ErrUnexpectedEOF\<close>) when
  the input ends before that line. Where the library un-reads a byte after a lone
  \<open>\r\<close> and goes on in \<open>stateData\<close>, \<open>dot_step\<close> emits the saved \<open>\r\<close> and handles the
  byte in \<open>stateData\<close> at once.
\<close>

definition CR :: char where
  "CR = CHR 0x0D"

definition LF :: char where
  "LF = CHR 0x0A"

definition CRLF :: string where
  "CRLF = [CR, LF]"

definition ReadLine :: "string \<Rightarrow> string \<times> string" where
  "ReadLine w =
     (let l = takeWhile (\<lambda>c. c \<noteq> LF) w;
          rest = drop 1 (dropWhile (\<lambda>c. c \<noteq> LF) w)
      in (if LF \<in> set w \<and> l \<noteq> [] \<and> last l = CR then butlast l else l, rest))"

datatype dot_state = stateBeginLine | stateDot | stateDotCR | stateCR | stateData | stateEOF

definition data_step :: "char \<Rightarrow> dot_state \<times> string" where
  "data_step c =
     (if c = CR then (stateCR, [])
      else if c = LF then (stateBeginLine, [c])
      else (stateData, [c]))"

fun dot_step :: "dot_state \<Rightarrow> char \<Rightarrow> dot_state \<times> string" where
  "dot_step stateBeginLine c =
     (if c = CHR ''.'' then (stateDot, [])
      else if c = CR then (stateCR, [])
      else (stateData, [c]))"
| "dot_step stateDot c =
     (if c = CR then (stateDotCR, [])
      else if c = LF then (stateEOF, [])
      else (stateData, [c]))"
| "dot_step stateDotCR c =
     (if c = LF then (stateEOF, [])
      else (case data_step c of (st, out) \<Rightarrow> (st, CR # out)))"
| "dot_step stateCR c =
     (if c = LF then (stateBeginLine, [c])
      else (case data_step c of (st, out) \<Rightarrow> (st, CR # out)))"
| "dot_step stateData c = data_step c"
| "dot_step stateEOF c = (stateEOF, [])"

fun dotRead :: "dot_state \<Rightarrow> string \<Rightarrow> (string \<times> string) option" where
  "dotRead st [] = None"
| "dotRead st (c # cs) =
     (case dot_step st c of
        (st', out) \<Rightarrow>
          if st' = stateEOF then Some ([], cs)
          else (case dotRead st' cs of
                  None \<Rightarrow> None
                | Some (d, rest) \<Rightarrow> Some (out @ d, rest)))"

definition ReadDotBytes :: "string \<Rightarrow> (string \<times> string) option" where
  "ReadDotBytes w = dotRead stateBeginLine w"

section \<open>Commands, envelopes and the client session\<close>

text \<open>
  The command parser, the envelope package and the \<^verbatim>\<open>clientSession\<close> type are not
  among the source files at hand; \<^verbatim>\<open>server.go\<close> only calls them. The parser itself
  (\<^verbatim>\<open>ParseCmd\<close>), the address parser of \<^verbatim>\<open>net/mail\<close> and the identifier
  generator are taken as parameters of the session.
\<close>

text \<open>
  Modelled from the spec: the verbs and the type \<^verbatim>\<open>ParsedCommand\<close> (section 4.1),
  with the three fields \<^verbatim>\<open>Cmd\<close>, \<^verbatim>\<open>Argument\<close> and \<^verbatim>\<open>Response\<close> that the
  server reads; and the type \<^verbatim>\<open>Envelope\<close> (section 3), with the fields the server
  assigns. A parsed address is kept as its text.
\<close>

datatype verb =
  HELO | EHLO | MAILFROM | RCPTTO | DATA | RSET | NOOP | VRFY | EXPN | HELP | QUIT
  | STARTTLS | AUTH

record ParsedCommand =
  Cmd :: verb
  Argument :: string
  Response :: string

type_synonym address = string

record Envelope =
  EnvId :: string
  RemoteAddress :: string
  From :: "address option"
  To :: "address option"
  Forwards :: "address list"
  Message :: string
  SecurelyDelivered :: bool

text \<open>
  Modelled from the spec: \<^verbatim>\<open>envelope.NewEnvelope\<close> (section 3: the identifier and the
  remote address are assigned at creation, sender and recipients are unset, no message,
  not securely delivered). The identifier drawn from the generator is an argument.
\<close>

definition NewEnvelope :: "string \<Rightarrow> string \<Rightarrow> Envelope" where
  "NewEnvelope ident clientId =
     \<lparr>EnvId = ident, RemoteAddress = clientId, From = None, To = None, Forwards = [],
      Message = [], SecurelyDelivered = False\<rparr>"

text \<open>Modelled from the spec: \<^verbatim>\<open>Envelope.AddForward\<close> (section 4.2, RCPT TO: later
  recipients are appended to the forwards).\<close>

definition AddForward :: "address \<Rightarrow> Envelope \<Rightarrow> Envelope" where
  "AddForward a e = e\<lparr>Forwards := Forwards e @ [a]\<rparr>"

datatype seq_state = GREETED | HELO_OK | FROM_OK | RCPT_OK | DATA_MODE | POST_DATA

text \<open>
  Modelled from the spec: the type \<^verbatim>\<open>clientSession\<close>. The fields \<^verbatim>\<open>isTLS\<close>,
  \<^verbatim>\<open>tlsConn\<close> (here: whether it is set) and \<^verbatim>\<open>remoteAddress\<close> are those
  \<^verbatim>\<open>server.go\<close> uses; the sequence state and the flags are those of section 4.2
  (\<open>helo_seen\<close> is what RSET needs to know). \<open>written\<close> holds the reply lines of the
  session, in order.
\<close>

record clientSession =
  isTLS :: bool
  tlsConn :: bool
  remoteAddress :: string
  seqState :: seq_state
  helo_seen :: bool
  mail_transaction_started :: bool
  written :: "string list"

text \<open>Modelled from the spec: \<^verbatim>\<open>clientSession.writeData\<close> (sends one reply line to
  the client); the line is appended to \<open>written\<close>. The server looks at its error only
  for the greeting.\<close>

definition writeData :: "string \<Rightarrow> clientSession \<Rightarrow> clientSession" where
  "writeData l c = c\<lparr>written := written c @ [l]\<rparr>"

text \<open>Modelled from the spec: \<^verbatim>\<open>clientSession.isInDataMode\<close> and
  \<^verbatim>\<open>clientSession.MarkInPostDataMode\<close> (section 4.2, the states \<open>DATA_MODE\<close> and
  \<open>POST_DATA\<close>).\<close>

definition isInDataMode :: "clientSession \<Rightarrow> bool" where
  "isInDataMode c = (seqState c = DATA_MODE)"

definition MarkInPostDataMode :: "clientSession \<Rightarrow> clientSession" where
  "MarkInPostDataMode c = c\<lparr>seqState := POST_DATA\<rparr>"

text \<open>Modelled from the spec: the sequence table of section 4.2, one row per state.\<close>

fun accepts :: "seq_state \<Rightarrow> verb list" where
  "accepts GREETED = [HELO, EHLO, NOOP, RSET, QUIT, STARTTLS]"
| "accepts HELO_OK =
     [MAILFROM, NOOP, RSET, QUIT, STARTTLS, EHLO, HELO, HELP, VRFY, EXPN, AUTH]"
| "accepts FROM_OK = [RCPTTO, RSET, NOOP, QUIT]"
| "accepts RCPT_OK = [RCPTTO, DATA, RSET, NOOP, QUIT]"
| "accepts DATA_MODE = []"
| "accepts POST_DATA = [RSET, QUIT]"

text \<open>Modelled from the spec: \<^verbatim>\<open>clientSession.verifyState\<close>; \<open>True\<close> stands for the
  \<^verbatim>\<open>nil\<close> error (the verb is in the row of the current state).\<close>

definition verifyState :: "clientSession \<Rightarrow> verb \<Rightarrow> bool" where
  "verifyState c v = (v \<in> set (accepts (seqState c)))"

text \<open>Modelled from the spec: \<^verbatim>\<open>clientSession.markState\<close> (section 4.2: HELO and EHLO
  lead to \<open>HELO_OK\<close>, MAIL FROM to \<open>FROM_OK\<close> and starts the mail transaction, RCPT TO
  to \<open>RCPT_OK\<close>, DATA to \<open>DATA_MODE\<close>, STARTTLS back to \<open>GREETED\<close>; the other verbs
  leave the state alone).\<close>

fun markState :: "verb \<Rightarrow> clientSession \<Rightarrow> clientSession" where
  "markState HELO c = c\<lparr>seqState := HELO_OK, helo_seen := True\<rparr>"
| "markState EHLO c = c\<lparr>seqState := HELO_OK, helo_seen := True\<rparr>"
| "markState MAILFROM c = c\<lparr>seqState := FROM_OK, mail_transaction_started := True\<rparr>"
| "markState RCPTTO c = c\<lparr>seqState := RCPT_OK\<rparr>"
| "markState DATA c = c\<lparr>seqState := DATA_MODE\<rparr>"
| "markState STARTTLS c = c\<lparr>seqState := GREETED\<rparr>"
| "markState v c = c"

text \<open>Modelled from the spec: \<^verbatim>\<open>clientSession.reset\<close> (section 4.2, RSET: back to
  \<open>HELO_OK\<close> if HELO or EHLO had been seen, else \<open>GREETED\<close>) and
  \<^verbatim>\<open>clientSession.hasInitiatedMailTransaction\<close> (the flag
  \<open>mail_transaction_started\<close>).\<close>

definition reset :: "clientSession \<Rightarrow> clientSession" where
  "reset c =
     c\<lparr>seqState := (if helo_seen c then HELO_OK else GREETED),
       mail_transaction_started := False\<rparr>"

definition hasInitiatedMailTransaction :: "clientSession \<Rightarrow> bool" where
  "hasInitiatedMailTransaction c = mail_transaction_started c"

section \<open>The session loop (handleTCPConnection)\<close>

text \<open>
  Modelled from the spec: the reply constants of package \<^verbatim>\<open>smtpd\<close>, which
  \<^verbatim>\<open>server.go\<close> uses and another file declares (sections 4.2 and 8 give the texts).
\<close>

definition kMessageAccepted :: "string \<Rightarrow> string" where
  "kMessageAccepted ident = ''250 OK: queued as '' @ ident"

definition kGreeting :: "string \<Rightarrow> string" where
  "kGreeting domain = ''220 '' @ domain @ '' ESMTP''"

definition kBadCommandSequence :: string where
  "kBadCommandSequence = ''503 Bad command sequence''"

definition kCommandNotImplemented :: string where
  "kCommandNotImplemented = ''502 Not implemented''"

definition kNoopCommand :: string where
  "kNoopCommand = ''250 OK''"

definition kVerifyAddress :: string where
  "kVerifyAddress = ''252 Cannot VRFY''"

definition kClosingConnection :: string where
  "kClosingConnection = ''221 Bye''"

definition kRequestAborted :: string where
  "kRequestAborted = ''451 Requested action aborted''"

definition kRecipientAccepted :: string where
  "kRecipientAccepted = ''250 OK''"

definition kSendData :: string where
  "kSendData = ''354 Start mail input; end with <CRLF>.<CRLF>''"

text \<open>\<^verbatim>\<open>%d\<close> of a non-negative integer.\<close>

fun decimal :: "nat \<Rightarrow> string" where
  "decimal n =
     (if n < 10 then [char_of (48 + n)]
      else decimal (n div 10) @ [char_of (48 + n mod 10)])"

declare decimal.simps [simp del]

text \<open>
  What the session takes from outside this file: the command parser, the address parser
  (\<^verbatim>\<open>mail.ParseAddress\<close>; \<open>None\<close> is its error), the identifiers the generator hands
  out (the k-th identifier drawn by this session), the domain name of the greeting and
  the size advertised by EHLO.
\<close>

record deps =
  ParseCmd :: "string \<Rightarrow> ParsedCommand"
  ParseAddress :: "string \<Rightarrow> address option"
  idGenerator :: "nat \<Rightarrow> string"
  domainName :: string
  kFixedSize :: nat

record tcpServer =
  localAddr :: string
  localPort :: string
  name :: string
  withTLS :: bool
  hasEnvelopeChannel :: bool

text \<open>
  The accepted socket as the session sees it: the peer's address, the bytes the peer
  sends that are not read yet, whether the first write fails, whether a TLS handshake
  with this peer fails, the read deadline (a time in nanoseconds) and whether it is closed.
\<close>

record tcpConn =
  RemoteAddr :: string
  incoming :: string
  writeFails :: bool
  handshakeFails :: bool
  readDeadline :: int
  closed :: bool

datatype reader_src = ReadsConn | ReadsTLSConn

text \<open>
  The variables of \<^verbatim>\<open>handleTCPConnection\<close>. \<open>reader\<close> tells which socket the
  buffered reader wraps; \<open>queued\<close> holds the envelopes sent on the envelope channel;
  \<open>idsDrawn\<close> counts the identifiers taken from the generator; \<open>running\<close> is false
  once the command loop is left.
\<close>

record session =
  conn :: tcpConn
  client :: clientSession
  envelopeData :: Envelope
  totalCommandErrors :: nat
  reader :: reader_src
  queued :: "Envelope list"
  idsDrawn :: nat
  running :: bool

text \<open>Modelled from the spec: \<^verbatim>\<open>NewClientSession\<close> (a session starts in \<open>GREETED\<close>,
  without TLS, with nothing written).\<close>

definition NewClientSession :: "tcpConn \<Rightarrow> clientSession" where
  "NewClientSession c =
     \<lparr>isTLS = False, tlsConn = False, remoteAddress = RemoteAddr c, seqState = GREETED,
      helo_seen = False, mail_transaction_started = False, written = []\<rparr>"

definition queueForDelivery :: "tcpServer \<Rightarrow> Envelope \<Rightarrow> Envelope list \<Rightarrow> Envelope list" where
  "queueForDelivery srv e q = (if hasEnvelopeChannel srv then q @ [e] else q)"

definition verifyEmailAddress :: "deps \<Rightarrow> string \<Rightarrow> address option" where
  "verifyEmailAddress d email = ParseAddress d email"

text \<open>The part of \<^verbatim>\<open>handleTCPConnection\<close> before the loop: \<open>newSession\<close> is the state
  at the entry of the loop, and \<open>None\<close> is the early return when the greeting cannot be
  written.\<close>

definition newSession :: "deps \<Rightarrow> tcpConn \<Rightarrow> session" where
  "newSession d c =
     (let clientId = RemoteAddr c
      in \<lparr>conn = c,
          client = writeData (kGreeting (domainName d)) (NewClientSession c),
          envelopeData = NewEnvelope (idGenerator d 0) clientId,
          totalCommandErrors = 0, reader = ReadsConn, queued = [],
          idsDrawn = 1, running = True\<rparr>)"

definition openSession :: "deps \<Rightarrow> tcpConn \<Rightarrow> session option" where
  "openSession d c = (if writeFails c then None else Some (newSession d c))"

definition reply :: "string \<Rightarrow> session \<Rightarrow> session" where
  "reply l s = s\<lparr>client := writeData l (client s)\<rparr>"

text \<open>The \<^verbatim>\<open>switch command.Cmd\<close> of the loop, one case per verb in the order of the
  source. Every verb of the parser has a case, so the \<^verbatim>\<open>default\<close> branch is not
  reached.\<close>

definition dispatch :: "deps \<Rightarrow> tcpServer \<Rightarrow> ParsedCommand \<Rightarrow> session \<Rightarrow> session" where
  "dispatch d srv command s =
     (case Cmd command of
        EXPN \<Rightarrow> reply kCommandNotImplemented s
      | HELP \<Rightarrow>
          reply ''214 Go read http://cr.yp.to/smtp.html.''
            (reply ''214 SMTP servers help those who help themselves.'' s)
      | NOOP \<Rightarrow> reply kNoopCommand s
      | VRFY \<Rightarrow> reply kVerifyAddress s
      | RSET \<Rightarrow>
          s\<lparr>envelopeData := NewEnvelope (idGenerator d (idsDrawn s)) (RemoteAddr (conn s)),
            idsDrawn := idsDrawn s + 1,
            client := writeData ''250 OK'' (reset (client s))\<rparr>
      | STARTTLS \<Rightarrow>
          (let s1 = s\<lparr>client := (client s)\<lparr>tlsConn := True\<rparr>, reader := ReadsTLSConn\<rparr>
           in if handshakeFails (conn s1)
              then (reply kClosingConnection s1)\<lparr>running := False\<rparr>
              else (let s2 = s1\<lparr>client := (client s1)\<lparr>isTLS := True\<rparr>\<rparr>
                    in if \<not> hasInitiatedMailTransaction (client s2)
                       then s2\<lparr>envelopeData := (envelopeData s2)\<lparr>SecurelyDelivered := True\<rparr>\<rparr>
                       else s2))
      | HELO \<Rightarrow>
          reply (''250 '' @ name srv @ '' Hello '' @ remoteAddress (client s)) s
      | EHLO \<Rightarrow>
          (let s1 = reply (''250-'' @ name srv @ '' Hello '' @ remoteAddress (client s)) s;
               s2 = reply (''250-SIZE '' @ decimal (kFixedSize d)) s1;
               s3 = reply ''250-PIPELINING'' s2;
               s4 = reply ''250 8BITMIME'' s3;
               s5 = reply ''250-VRFY'' s4;
               s6 = reply ''250-HELP'' s5
           in if \<not> withTLS srv \<and> \<not> isTLS (client s6)
              then reply ''250-STARTTLS'' s6
              else s6)
      | AUTH \<Rightarrow> reply kCommandNotImplemented s
      | MAILFROM \<Rightarrow>
          (case verifyEmailAddress d (Argument command) of
             None \<Rightarrow> reply kRequestAborted s
           | Some fromAddress \<Rightarrow>
               reply kRecipientAccepted
                 (s\<lparr>envelopeData := (envelopeData s)\<lparr>From := Some fromAddress\<rparr>\<rparr>))
      | RCPTTO \<Rightarrow>
          (case verifyEmailAddress d (Argument command) of
             None \<Rightarrow> reply kRequestAborted s
           | Some toAddress \<Rightarrow>
               reply kRecipientAccepted
                 (s\<lparr>envelopeData :=
                      (if To (envelopeData s) = None
                       then (envelopeData s)\<lparr>To := Some toAddress\<rparr>
                       else AddForward toAddress (envelopeData s))\<rparr>))
      | DATA \<Rightarrow> reply kSendData s
      | QUIT \<Rightarrow> (reply kClosingConnection s)\<lparr>running := False\<rparr>)"

text \<open>One iteration of \<^verbatim>\<open>command_loop\<close>.\<close>

definition step :: "deps \<Rightarrow> tcpServer \<Rightarrow> session \<Rightarrow> session" where
  "step d srv s =
     (if isInDataMode (client s) then
        (case ReadDotBytes (incoming (conn s)) of
           None \<Rightarrow> s\<lparr>conn := (conn s)\<lparr>incoming := []\<rparr>, running := False\<rparr>
         | Some (dotBytes, rest) \<Rightarrow>
             (let s0 = s\<lparr>conn := (conn s)\<lparr>incoming := rest\<rparr>\<rparr>
              in if length dotBytes > 0 then
                   (let e = (envelopeData s0)\<lparr>Message := dotBytes\<rparr>;
                        c1 = writeData (kMessageAccepted (EnvId e)) (client s0);
                        c2 = MarkInPostDataMode c1
                    in s0\<lparr>envelopeData := e, client := c2,
                          queued := queueForDelivery srv e (queued s0)\<rparr>)
                 else s0))
      else
        (case ReadLine (incoming (conn s)) of
           (line, rest) \<Rightarrow>
             (let s0 = s\<lparr>conn := (conn s)\<lparr>incoming := rest\<rparr>\<rparr>;
                  command = ParseCmd d line
              in if Response command \<noteq> [] then
                   (let s1 = (reply (Response command) s0)
                               \<lparr>totalCommandErrors := totalCommandErrors s0 + 1\<rparr>
                    in if totalCommandErrors s1 = 5 then s1\<lparr>running := False\<rparr> else s1)
                 else if \<not> verifyState (client s0) (Cmd command) then
                   reply kBadCommandSequence s0
                 else
                   dispatch d srv command
                     (s0\<lparr>client := markState (Cmd command) (client s0)\<rparr>))))"

text \<open>The loop, for at most \<open>n\<close> iterations.\<close>

fun command_loop :: "deps \<Rightarrow> tcpServer \<Rightarrow> nat \<Rightarrow> session \<Rightarrow> session" where
  "command_loop d srv 0 s = s"
| "command_loop d srv (Suc n) s =
     (if running s then command_loop d srv n (step d srv s) else s)"

section \<open>The listener (tcpServer.Start) and the connection counter\<close>

text \<open>
  The package-level variables: the mutex (true when locked), the number of live
  connections and the table of sessions. \<open>spawned\<close> lists the sockets handed to a
  session goroutine and \<open>refused\<close> the accepted sockets that were not, each as
  \<^verbatim>\<open>Start\<close> left it.

  \<^verbatim>\<open>handleTCPConnection\<close> calls \<^verbatim>\<open>incrementConnectionCounter\<close> once the greeting is
  written and \<^verbatim>\<open>decrementConnectionCounter\<close> when the loop is left.

  No goroutine of the program unlocks \<^verbatim>\<open>clientMutex\<close> without having locked it
  first in the same function, so a \<^verbatim>\<open>Lock\<close> on a locked mutex that its holder has
  left behind never returns: \<open>Lock\<close> gives \<open>None\<close> there, and so does every operation
  that needs the mutex.
\<close>

record globals =
  clientMutex :: bool
  totalClientConnections :: int
  clientConnections :: "string \<rightharpoonup> clientSession"
  spawned :: "tcpConn list"
  refused :: "tcpConn list"

definition Lock :: "globals \<Rightarrow> globals option" where
  "Lock g = (if clientMutex g then None else Some (g\<lparr>clientMutex := True\<rparr>))"

definition Unlock :: "globals \<Rightarrow> globals" where
  "Unlock g = g\<lparr>clientMutex := False\<rparr>"

definition Second :: int where
  "Second = 1000000000"

definition Minute :: int where
  "Minute = 60 * Second"

definition SetReadDeadline :: "int \<Rightarrow> tcpConn \<Rightarrow> tcpConn" where
  "SetReadDeadline t c = c\<lparr>readDeadline := t\<rparr>"

text \<open>One iteration of the accept loop of \<^verbatim>\<open>Start\<close> for a socket accepted at time
  \<open>now\<close>, with the cap \<open>maxClientConnections\<close> as a parameter.\<close>

definition Start_accept :: "int \<Rightarrow> int \<Rightarrow> tcpConn \<Rightarrow> globals \<Rightarrow> globals option" where
  "Start_accept maxClientConnections now c g =
     (case Lock g of
        None \<Rightarrow> None
      | Some g1 \<Rightarrow>
          if totalClientConnections g1 \<ge> maxClientConnections
          then Some (g1\<lparr>refused := refused g1 @ [c]\<rparr>)
          else (let g2 = Unlock g1
                in Some (g2\<lparr>spawned := spawned g2 @ [SetReadDeadline (now + 4 * Minute) c]\<rparr>)))"

definition incrementConnectionCounter ::
    "string \<Rightarrow> clientSession \<Rightarrow> globals \<Rightarrow> globals option" where
  "incrementConnectionCounter clientId cl g =
     (case Lock g of
        None \<Rightarrow> None
      | Some g1 \<Rightarrow>
          Some (Unlock (g1\<lparr>totalClientConnections := totalClientConnections g1 + 1,
                           clientConnections := (clientConnections g1)(clientId \<mapsto> cl)\<rparr>)))"

definition decrementConnectionCounter :: "string \<Rightarrow> globals \<Rightarrow> globals option" where
  "decrementConnectionCounter clientId g =
     (case Lock g of
        None \<Rightarrow> None
      | Some g1 \<Rightarrow>
          Some (Unlock (g1\<lparr>totalClientConnections := totalClientConnections g1 - 1,
                           clientConnections := (clientConnections g1)(clientId := None)\<rparr>)))"

definition initial_globals :: globals where
  "initial_globals =
     \<lparr>clientMutex = False, totalClientConnections = 0, clientConnections = Map.empty,
      spawned = [], refused = []\<rparr>"

section \<open>A concrete setting for the examples\<close>

text \<open>
  Modelled from the spec: \<^verbatim>\<open>ParseCmd\<close> (section 4.1). The verb is matched without
  regard to case; \<open>MAIL FROM:\<close> and \<open>RCPT TO:\<close> need the colon and their argument loses
  its angle brackets; space around the line and the argument is dropped; an unknown verb
  gives \<open>500 Syntax error, command unrecognized\<close>. The \<open>Cmd\<close> of a rejected line is
  never looked at by the server.
\<close>

definition toUpper :: "char \<Rightarrow> char" where
  "toUpper c =
     (case map_of (zip ''abcdefghijklmnopqrstuvwxyz'' ''ABCDEFGHIJKLMNOPQRSTUVWXYZ'') c of
        None \<Rightarrow> c
      | Some u \<Rightarrow> u)"

definition trim :: "string \<Rightarrow> string" where
  "trim l =
     rev (dropWhile (\<lambda>c. c = CHR '' '') (rev (dropWhile (\<lambda>c. c = CHR '' '') l)))"

definition stripBrackets :: "string \<Rightarrow> string" where
  "stripBrackets a =
     (let a1 = (if a \<noteq> [] \<and> hd a = CHR ''<'' then tl a else a)
      in if a1 \<noteq> [] \<and> last a1 = CHR ''>'' then butlast a1 else a1)"

definition verbs :: "(string \<times> verb) list" where
  "verbs =
     [(''HELO'', HELO), (''EHLO'', EHLO), (''DATA'', DATA), (''RSET'', RSET),
      (''NOOP'', NOOP), (''VRFY'', VRFY), (''EXPN'', EXPN), (''HELP'', HELP),
      (''QUIT'', QUIT), (''STARTTLS'', STARTTLS), (''AUTH'', AUTH)]"

definition parsed :: "verb \<Rightarrow> string \<Rightarrow> ParsedCommand" where
  "parsed v a = \<lparr>Cmd = v, Argument = a, Response = []\<rparr>"

definition rejected :: "string \<Rightarrow> ParsedCommand" where
  "rejected r = \<lparr>Cmd = HELO, Argument = [], Response = r\<rparr>"

definition SpecParseCmd :: "string \<Rightarrow> ParsedCommand" where
  "SpecParseCmd line =
     (let l = trim line; u = map toUpper l
      in if take 10 u = ''MAIL FROM:'' then parsed MAILFROM (stripBrackets (trim (drop 10 l)))
         else if take 8 u = ''RCPT TO:'' then parsed RCPTTO (stripBrackets (trim (drop 8 l)))
         else (case map_of verbs (takeWhile (\<lambda>c. c \<noteq> CHR '' '') u) of
                 None \<Rightarrow> rejected ''500 Syntax error, command unrecognized''
               | Some v \<Rightarrow> parsed v (trim (dropWhile (\<lambda>c. c \<noteq> CHR '' '') l))))"

text \<open>
  For the examples, \<^verbatim>\<open>mail.ParseAddress\<close> is replaced by a test for an \<open>@\<close> between
  two non-empty parts, which agrees with it on the plain addresses used below; the
  generator hands out \<open>id0\<close>, \<open>id1\<close>, ...
\<close>

definition exampleParseAddress :: "string \<Rightarrow> address option" where
  "exampleParseAddress a =
     (if takeWhile (\<lambda>c. c \<noteq> CHR ''@'') a \<noteq> []
         \<and> length (dropWhile (\<lambda>c. c \<noteq> CHR ''@'') a) > 1
      then Some a else None)"

definition example_deps :: deps where
  "example_deps =
     \<lparr>ParseCmd = SpecParseCmd, ParseAddress = exampleParseAddress,
      idGenerator = (\<lambda>k. ''id'' @ decimal k), domainName = ''localhost'',
      kFixedSize = 1024\<rparr>"

definition plain_server :: tcpServer where
  "plain_server =
     \<lparr>localAddr = ''0.0.0.0'', localPort = ''10025'', name = ''localhost'',
      withTLS = False, hasEnvelopeChannel = True\<rparr>"

definition peer :: "string \<Rightarrow> tcpConn" where
  "peer bytes =
     \<lparr>RemoteAddr = ''192.0.2.7:4321'', incoming = bytes, writeFails = False,
      handshakeFails = False, readDeadline = 0, closed = False\<rparr>"

text \<open>A wire line: the text followed by \<open>\r\n\<close>.\<close>

definition wire_line :: "string \<Rightarrow> string" where
  "wire_line l = l @ CRLF"

definition wire_lines :: "string list \<Rightarrow> string" where
  "wire_lines ls = concat (map wire_line ls)"

text \<open>The session of \<open>plain_server\<close> on the given socket, after at most \<open>n\<close>
  iterations of the loop.\<close>

definition example_run :: "nat \<Rightarrow> tcpConn \<Rightarrow> session" where
  "example_run n c = command_loop example_deps plain_server n (newSession example_deps c)"

text \<open>Three peers, and the listener with a cap of one connection after it has admitted
  the first peer, the first session has registered itself, and the second peer has been
  accepted.\<close>

definition first_peer :: tcpConn where
  "first_peer = (peer [])\<lparr>RemoteAddr := ''192.0.2.1:1001''\<rparr>"

definition second_peer :: tcpConn where
  "second_peer = (peer [])\<lparr>RemoteAddr := ''192.0.2.2:1002''\<rparr>"

definition third_peer :: tcpConn where
  "third_peer = (peer [])\<lparr>RemoteAddr := ''192.0.2.3:1003''\<rparr>"

definition listener_at_cap :: "globals option" where
  "listener_at_cap =
     Option.bind (Start_accept 1 0 first_peer initial_globals)
       (\<lambda>g1. Option.bind
           (incrementConnectionCounter (RemoteAddr first_peer) (NewClientSession first_peer) g1)
           (Start_accept 1 1 second_peer))"

section \<open>Notions used in the statements\<close>

text \<open>The command the loop parses in its next iteration when it is not in data mode.\<close>

definition nextCommand :: "deps \<Rightarrow> session \<Rightarrow> ParsedCommand" where
  "nextCommand d s = ParseCmd d (fst (ReadLine (incoming (conn s))))"

text \<open>
  The dot-encoding of a message body given as its lines: a line that starts with a dot
  gets one more dot, every line ends in \<open>\r\n\<close>, and the line with a lone dot closes the
  block. \<open>lfLines\<close> is the same body with every line ended by a single \<open>\n\<close>. A plain
  line holds neither \<open>\r\<close> nor \<open>\n\<close>.
\<close>

definition dotStuff :: "string \<Rightarrow> string" where
  "dotStuff l = (if l \<noteq> [] \<and> hd l = CHR ''.'' then CHR ''.'' # l else l)"

definition dotEncode :: "string list \<Rightarrow> string" where
  "dotEncode ls = concat (map (\<lambda>l. dotStuff l @ CRLF) ls) @ ''.'' @ CRLF"

definition lfLines :: "string list \<Rightarrow> string" where
  "lfLines ls = concat (map (\<lambda>l. l @ [LF]) ls)"

definition plainLine :: "string \<Rightarrow> bool" where
  "plainLine l = (CR \<notin> set l \<and> LF \<notin> set l)"

fun prepend :: "string \<Rightarrow> (string \<times> string) option \<Rightarrow> (string \<times> string) option" where
  "prepend p None = None"
| "prepend p (Some (d, r)) = Some (p @ d, r)"

section \<open>Results: the dot-decoded message body\<close>

lemma CR_LF_distinct: "CR \<noteq> LF" "CR \<noteq> CHR ''.''" "LF \<noteq> CHR ''.''"
  by (simp_all add: CR_def LF_def)

lemma dotRead_data_line:
  "plainLine l \<Longrightarrow>
   dotRead stateData (l @ CRLF @ w) = prepend (l @ [LF]) (dotRead stateBeginLine w)"
proof (induction l)
  case Nil
  show ?case
    by (cases "dotRead stateBeginLine w")
       (auto simp: CRLF_def data_step_def CR_LF_distinct)
next
  case (Cons c l)
  then have "c \<noteq> CR" "c \<noteq> LF" "plainLine l"
    by (auto simp: plainLine_def)
  with Cons.IH show ?case
    by (cases "dotRead stateBeginLine w") (auto simp: data_step_def)
qed

lemma dotRead_begin_line:
  assumes "plainLine l"
  shows "dotRead stateBeginLine (dotStuff l @ CRLF @ w) =
         prepend (l @ [LF]) (dotRead stateBeginLine w)"
proof (cases l)
  case Nil
  then show ?thesis
    by (cases "dotRead stateBeginLine w")
       (auto simp: dotStuff_def CRLF_def CR_LF_distinct)
next
  case (Cons c l')
  with assms have c: "c \<noteq> CR" "c \<noteq> LF" and l': "plainLine l'"
    by (auto simp: plainLine_def)
  show ?thesis
  proof (cases "c = CHR ''.''")
    case True
    with Cons c dotRead_data_line [OF l', of w] show ?thesis
      by (cases "dotRead stateBeginLine w") (auto simp: dotStuff_def CR_LF_distinct)
  next
    case False
    with Cons c dotRead_data_line [OF l', of w] show ?thesis
      by (cases "dotRead stateBeginLine w") (auto simp: dotStuff_def)
  qed
qed

lemma dotRead_terminator: "dotRead stateBeginLine (''.'' @ CRLF @ rest) = Some ([], rest)"
  by (simp add: CRLF_def CR_LF_distinct)

lemma ReadDotBytes_dotEncode:
  "list_all plainLine ls \<Longrightarrow>
   ReadDotBytes (dotEncode ls @ rest) = Some (lfLines ls, rest)"
  unfolding ReadDotBytes_def dotEncode_def lfLines_def
proof (induction ls)
  case Nil
  show ?case using dotRead_terminator [of rest] by simp
next
  case (Cons l ls)
  then have "plainLine l" and IH: "dotRead stateBeginLine
     ((concat (map (\<lambda>l. dotStuff l @ CRLF) ls) @ ''.'' @ CRLF) @ rest) =
    Some (concat (map (\<lambda>l. l @ [LF]) ls), rest)"
    by simp_all
  from dotRead_begin_line [OF \<open>plainLine l\<close>,
      of "(concat (map (\<lambda>l. dotStuff l @ CRLF) ls) @ ''.'' @ CRLF) @ rest"] IH
  show ?case by simp
qed

lemma lfLines_nonempty: "ls \<noteq> [] \<Longrightarrow> lfLines ls \<noteq> []"
  by (cases ls) (simp_all add: lfLines_def)

text \<open>
  Claim C6, as amended. When the session is in data mode and the dot-body reader
  succeeds on the unread bytes with a non-empty result, the iteration stores exactly the
  bytes the reader returns as the message of the envelope, and the bytes after the block
  stay unread. Whenever the unread bytes are the dot-encoding of plain lines (each ended
  by \<open>\r\n\<close>, a leading dot doubled, the lone dot line last), the bytes stored are those
  lines with the closing dot line stripped, the dot-stuffing undone and every \<open>\r\n\<close>
  line end rewritten into a single \<open>\n\<close>.
\<close>

theorem message_is_decoded_body:
  assumes "isInDataMode (client s)"
    and "ReadDotBytes (incoming (conn s)) = Some (b, rest)"
    and "b \<noteq> []"
  shows "Message (envelopeData (step d srv s)) = b
       \<and> incoming (conn (step d srv s)) = rest
       \<and> (list_all plainLine ls \<and> incoming (conn s) = dotEncode ls @ r
            \<longrightarrow> b = lfLines ls \<and> rest = r)"
proof -
  have stored: "Message (envelopeData (step d srv s)) = b
       \<and> incoming (conn (step d srv s)) = rest"
    using assms by (simp add: step_def Let_def)
  have gloss: "b = lfLines ls \<and> rest = r"
    if "list_all plainLine ls" and "incoming (conn s) = dotEncode ls @ r"
    using ReadDotBytes_dotEncode [OF that(1), of r] that(2) assms(2) by simp
  from stored gloss show ?thesis by blast
qed

text \<open>
  Claim C6, an instance of the amended statement: after HELO, MAIL FROM, RCPT TO and
  DATA the body with the lines \<open>hi\<close> and \<open>.sig\<close>, sent in dot-encoding, is read as
  \<open>hi\n.sig\n\<close> and stored so.
\<close>

theorem message_is_decoded_body_witness:
  "isInDataMode (client (example_run 4 (peer (wire_lines
       [''HELO x'', ''MAIL FROM:<a@b>'', ''RCPT TO:<c@d>'', ''DATA'']
       @ dotEncode [''hi'', ''.sig''] @ wire_line ''QUIT''))))
   \<and> ReadDotBytes (incoming (conn (example_run 4 (peer (wire_lines
       [''HELO x'', ''MAIL FROM:<a@b>'', ''RCPT TO:<c@d>'', ''DATA'']
       @ dotEncode [''hi'', ''.sig''] @ wire_line ''QUIT'')))))
      = Some (''hi'' @ [LF] @ ''.sig'' @ [LF], wire_line ''QUIT'')
   \<and> plainLine ''hi'' \<and> plainLine ''.sig''
   \<and> Message (envelopeData (example_run 5 (peer (wire_lines
       [''HELO x'', ''MAIL FROM:<a@b>'', ''RCPT TO:<c@d>'', ''DATA'']
       @ dotEncode [''hi'', ''.sig''] @ wire_line ''QUIT''))))
      = ''hi'' @ [LF] @ ''.sig'' @ [LF]
   \<and> ''hi'' @ [LF] @ ''.sig'' @ [LF] = lfLines [''hi'', ''.sig'']"
proof -
  let ?c = "peer (wire_lines
       [''HELO x'', ''MAIL FROM:<a@b>'', ''RCPT TO:<c@d>'', ''DATA'']
       @ dotEncode [''hi'', ''.sig''] @ wire_line ''QUIT'')"
  let ?s = "example_run 4 ?c"
  have h1: "isInDataMode (client ?s)" by code_simp
  have h2: "ReadDotBytes (incoming (conn ?s))
      = Some (''hi'' @ [LF] @ ''.sig'' @ [LF], wire_line ''QUIT'')"
    by code_simp
  have h3: "''hi'' @ [LF] @ ''.sig'' @ [LF] \<noteq> []" by simp
  have h4: "list_all plainLine [''hi'', ''.sig'']" by code_simp
  have h5: "incoming (conn ?s) = dotEncode [''hi'', ''.sig''] @ wire_line ''QUIT''"
    by code_simp
  have run: "example_run 5 ?c = step example_deps plain_server ?s" by code_simp
  from message_is_decoded_body [OF h1 h2 h3, of example_deps plain_server
      "[''hi'', ''.sig'']" "wire_line ''QUIT''"] run h1 h2 h4 h5
  show ?thesis by simp
qed

text \<open>
  Claim C6, as stated, fails: the wire body \<open>hi\r\n.\r\n\<close> sent after DATA is stored as
  \<open>hi\n\<close>, not as \<open>hi\r\n\<close>.
\<close>

theorem crlf_not_kept_counterexample:
  "isInDataMode (client (example_run 4 (peer (wire_lines
       [''HELO x'', ''MAIL FROM:<a@b>'', ''RCPT TO:<c@d>'', ''DATA'']
       @ ''hi'' @ CRLF @ ''.'' @ CRLF))))
   \<and> Message (envelopeData (example_run 5 (peer (wire_lines
       [''HELO x'', ''MAIL FROM:<a@b>'', ''RCPT TO:<c@d>'', ''DATA'']
       @ ''hi'' @ CRLF @ ''.'' @ CRLF))))
      = ''hi'' @ [LF]
   \<and> Message (envelopeData (example_run 5 (peer (wire_lines
       [''HELO x'', ''MAIL FROM:<a@b>'', ''RCPT TO:<c@d>'', ''DATA'']
       @ ''hi'' @ CRLF @ ''.'' @ CRLF))))
      \<noteq> ''hi'' @ CRLF"
  by code_simp

section \<open>Results: one iteration of the session loop\<close>

lemma step_command_mode:
  assumes "\<not> isInDataMode (client s)"
  shows "step d srv s =
     (let s0 = s\<lparr>conn := (conn s)\<lparr>incoming := snd (ReadLine (incoming (conn s)))\<rparr>\<rparr>;
          command = nextCommand d s
      in if Response command \<noteq> [] then
           (let s1 = (reply (Response command) s0)
                       \<lparr>totalCommandErrors := totalCommandErrors s0 + 1\<rparr>
            in if totalCommandErrors s1 = 5 then s1\<lparr>running := False\<rparr> else s1)
         else if \<not> verifyState (client s0) (Cmd command) then
           reply kBadCommandSequence s0
         else
           dispatch d srv command
             (s0\<lparr>client := markState (Cmd command) (client s0)\<rparr>))"
  using assms by (simp add: step_def nextCommand_def Let_def split: prod.splits)

lemma dispatch_keeps_errors:
  "totalCommandErrors (dispatch d srv command s) = totalCommandErrors s"
  by (cases "Cmd command")
     (simp_all add: dispatch_def reply_def Let_def split: option.splits)

lemma errors_never_reset: "totalCommandErrors s \<le> totalCommandErrors (step d srv s)"
  by (simp add: step_def Let_def reply_def dispatch_keeps_errors
      split: option.splits prod.splits)

lemma RSET_envelope_not_secure:
  assumes "\<not> isInDataMode (client s)"
    and "nextCommand d s = \<lparr>Cmd = RSET, Argument = a, Response = []\<rparr>"
    and "verifyState (client s) RSET"
  shows "\<not> SecurelyDelivered (envelopeData (step d srv s))
       \<and> isTLS (client (step d srv s)) = isTLS (client s)"
  using assms(2,3)
  by (simp add: step_command_mode [OF assms(1)] Let_def dispatch_def NewEnvelope_def
      writeData_def reset_def)

lemma EHLO_reply:
  assumes "\<not> isInDataMode (client s)"
    and "nextCommand d s = \<lparr>Cmd = EHLO, Argument = a, Response = []\<rparr>"
    and "verifyState (client s) EHLO"
  shows "written (client (step d srv s)) =
           written (client s) @
           [''250-'' @ name srv @ '' Hello '' @ remoteAddress (client s),
            ''250-SIZE '' @ decimal (kFixedSize d), ''250-PIPELINING'', ''250 8BITMIME'',
            ''250-VRFY'', ''250-HELP''] @
           (if \<not> withTLS srv \<and> \<not> isTLS (client s) then [''250-STARTTLS''] else [])"
  using assms(2,3)
  by (simp add: step_command_mode [OF assms(1)] Let_def dispatch_def reply_def writeData_def)

lemma STARTTLS_without_reply:
  assumes "\<not> isInDataMode (client s)"
    and "nextCommand d s = \<lparr>Cmd = STARTTLS, Argument = a, Response = []\<rparr>"
    and "verifyState (client s) STARTTLS"
    and "\<not> handshakeFails (conn s)"
  shows "written (client (step d srv s)) = written (client s)
       \<and> reader (step d srv s) = ReadsTLSConn \<and> isTLS (client (step d srv s))"
  using assms(2,3,4)
  by (simp add: step_command_mode [OF assms(1)] Let_def dispatch_def)

lemma empty_body_step:
  assumes "isInDataMode (client s)" and "incoming (conn s) = ''.'' @ CRLF @ rest"
  shows "step d srv s = s\<lparr>conn := (conn s)\<lparr>incoming := rest\<rparr>\<rparr>"
  using assms by (simp add: step_def ReadDotBytes_def CRLF_def CR_def LF_def)

text \<open>
  Claim C8. When the session reads a command (it is not in data mode, where no command
  is read), the parser accepts the line and the verb is not in the row of the current
  state, the iteration appends \<open>503 Bad command sequence\<close> to what was written and
  changes nothing else of the client session: the sequence state, the envelope under
  construction, the queue, the error count and the loop flag are as before.
\<close>

theorem bad_sequence_keeps_state:
  assumes "\<not> isInDataMode (client s)"
    and "Response (nextCommand d s) = []"
    and "\<not> verifyState (client s) (Cmd (nextCommand d s))"
  shows "client (step d srv s) =
           (client s)\<lparr>written := written (client s) @ [''503 Bad command sequence'']\<rparr>
       \<and> seqState (client (step d srv s)) = seqState (client s)
       \<and> envelopeData (step d srv s) = envelopeData s
       \<and> queued (step d srv s) = queued s
       \<and> totalCommandErrors (step d srv s) = totalCommandErrors s
       \<and> running (step d srv s) = running s"
  using assms(2,3)
  by (simp add: step_command_mode [OF assms(1)] Let_def reply_def writeData_def
      kBadCommandSequence_def)

text \<open>
  Claim C8, an instance: after \<open>HELO x\<close> the session is in \<open>HELO_OK\<close>, where DATA is not
  permitted; the line \<open>DATA\<close> is answered with \<open>503 Bad command sequence\<close> and the state
  and the envelope stay.
\<close>

theorem bad_sequence_keeps_state_witness:
  "\<not> isInDataMode (client (example_run 1 (peer (wire_lines [''HELO x'', ''DATA'']))))
   \<and> nextCommand example_deps (example_run 1 (peer (wire_lines [''HELO x'', ''DATA''])))
       = \<lparr>Cmd = DATA, Argument = [], Response = []\<rparr>
   \<and> seqState (client (example_run 1 (peer (wire_lines [''HELO x'', ''DATA'']))))
       = HELO_OK
   \<and> written (client (step example_deps plain_server
        (example_run 1 (peer (wire_lines [''HELO x'', ''DATA''])))))
       = [''220 localhost ESMTP'', ''250 localhost Hello 192.0.2.7:4321'',
          ''503 Bad command sequence'']
   \<and> seqState (client (step example_deps plain_server
        (example_run 1 (peer (wire_lines [''HELO x'', ''DATA''])))))
       = HELO_OK
   \<and> envelopeData (step example_deps plain_server
        (example_run 1 (peer (wire_lines [''HELO x'', ''DATA'']))))
       = envelopeData (example_run 1 (peer (wire_lines [''HELO x'', ''DATA''])))"
proof -
  let ?s = "example_run 1 (peer (wire_lines [''HELO x'', ''DATA'']))"
  have h1: "\<not> isInDataMode (client ?s)" by code_simp
  have c: "nextCommand example_deps ?s = \<lparr>Cmd = DATA, Argument = [], Response = []\<rparr>"
    by code_simp
  have h2: "Response (nextCommand example_deps ?s) = []" by code_simp
  have h3: "\<not> verifyState (client ?s) (Cmd (nextCommand example_deps ?s))" by code_simp
  have w: "written (client ?s) =
      [''220 localhost ESMTP'', ''250 localhost Hello 192.0.2.7:4321'']
      \<and> seqState (client ?s) = HELO_OK" by code_simp
  from bad_sequence_keeps_state [OF h1 h2 h3, of plain_server] h1 c w
  show ?thesis by simp
qed

section \<open>Results: the read deadline\<close>

lemma reply_conn: "conn (reply l s) = conn s"
  by (simp add: reply_def)

lemma dispatch_keeps_deadline:
  "readDeadline (conn (dispatch d srv command s)) = readDeadline (conn s)"
  by (cases "Cmd command")
     (simp_all add: dispatch_def Let_def reply_conn split: option.splits)

lemma step_keeps_deadline: "readDeadline (conn (step d srv s)) = readDeadline (conn s)"
  by (simp add: step_def Let_def dispatch_keeps_deadline reply_conn
      split: option.splits prod.splits)

lemma command_loop_keeps_deadline:
  "readDeadline (conn (command_loop d srv n s)) = readDeadline (conn s)"
  by (induction n arbitrary: s) (simp_all add: step_keeps_deadline)

text \<open>
  Claim C9, as amended. A connection accepted at time \<open>now\<close> while the mutex is free and
  the count is below the cap is handed to a session with its read deadline set to
  \<open>now\<close> plus four minutes (the constant in \<^verbatim>\<open>Start\<close>), and after any number of
  iterations of the session loop the deadline is still that: the loop never sets it again.
\<close>

theorem deadline_fixed_at_accept:
  assumes "\<not> clientMutex g"
    and "totalClientConnections g < maxClientConnections"
  shows "map_option spawned (Start_accept maxClientConnections now c g) =
           Some (spawned g @ [SetReadDeadline (now + 4 * Minute) c])
       \<and> readDeadline (conn (command_loop d srv n
             (newSession d (SetReadDeadline (now + 4 * Minute) c)))) = now + 4 * Minute"
  using assms
  by (simp add: Start_accept_def Lock_def Unlock_def Let_def command_loop_keeps_deadline
      newSession_def SetReadDeadline_def)

text \<open>
  Claim C9, an instance of the amended statement: a peer accepted at time 7 by a fresh
  listener with the default cap has the deadline 7 ns + 4 min, and still has it after
  two NOOP commands were read and answered.
\<close>

theorem deadline_fixed_at_accept_witness:
  "\<not> clientMutex initial_globals
   \<and> totalClientConnections initial_globals < 64000
   \<and> map_option spawned
        (Start_accept 64000 7 (peer (wire_lines [''NOOP'', ''NOOP''])) initial_globals)
       = Some [SetReadDeadline (7 + 4 * Minute) (peer (wire_lines [''NOOP'', ''NOOP'']))]
   \<and> readDeadline (conn (example_run 2
         (SetReadDeadline (7 + 4 * Minute) (peer (wire_lines [''NOOP'', ''NOOP''])))))
       = 240000000007"
proof -
  have h1: "\<not> clientMutex initial_globals" by (simp add: initial_globals_def)
  have h2: "totalClientConnections initial_globals < 64000" by (simp add: initial_globals_def)
  from deadline_fixed_at_accept [OF h1 h2, of 7 "peer (wire_lines [''NOOP'', ''NOOP''])"
      example_deps plain_server 2] h1 h2
  show ?thesis by (simp add: example_run_def initial_globals_def Minute_def Second_def)
qed

text \<open>
  Claim C9, as stated, fails: a session accepted at time 0 reads the command NOOP and
  answers it, and its read deadline is still 0 + 4 min; had it been set again when the
  command was read, say one second after the accept, it would be 1 s + 4 min.
\<close>

theorem deadline_not_refreshed_counterexample:
  "written (client (example_run 1
      (SetReadDeadline (0 + 4 * Minute) (peer (wire_line ''NOOP'')))))
     = [''220 localhost ESMTP'', ''250 OK'']
   \<and> readDeadline (conn (example_run 1
      (SetReadDeadline (0 + 4 * Minute) (peer (wire_line ''NOOP'')))))
     = 0 + 4 * Minute
   \<and> readDeadline (conn (example_run 1
      (SetReadDeadline (0 + 4 * Minute) (peer (wire_line ''NOOP'')))))
     \<noteq> Second + 4 * Minute"
  by code_simp

section \<open>Results: what the code does on inputs where it departs from the specification\<close>

text \<open>
  Claim C1. A session upgrades to TLS, delivers a first message, issues RSET and
  delivers a second message, all on the TLS channel: the first envelope is queued as
  securely delivered, the second, allocated by RSET after the upgrade, is not.
\<close>

theorem second_message_over_TLS_not_marked_secure:
  "isTLS (client (example_run 12 (peer (wire_lines
       [''EHLO x'', ''STARTTLS'', ''EHLO x'', ''MAIL FROM:<a@b>'', ''RCPT TO:<c@d>'', ''DATA'',
        ''one'', ''.'', ''RSET'', ''MAIL FROM:<e@f>'', ''RCPT TO:<c@d>'', ''DATA'',
        ''two'', ''.'']))))
   \<and> map (\<lambda>e. (From e, Message e, SecurelyDelivered e))
       (queued (example_run 12 (peer (wire_lines
       [''EHLO x'', ''STARTTLS'', ''EHLO x'', ''MAIL FROM:<a@b>'', ''RCPT TO:<c@d>'', ''DATA'',
        ''one'', ''.'', ''RSET'', ''MAIL FROM:<e@f>'', ''RCPT TO:<c@d>'', ''DATA'',
        ''two'', ''.'']))))
     = [(Some ''a@b'', ''one'' @ [LF], True), (Some ''e@f'', ''two'' @ [LF], False)]"
  by code_simp

text \<open>
  Claim C2. After DATA the peer sends the empty body (a lone dot line) and then QUIT.
  The iteration that reads the empty body writes nothing, queues nothing and leaves the
  session in data mode; the next iteration takes \<open>QUIT\<close> for the start of a body,
  meets the end of the input and leaves the loop, still without a reply or an envelope.
\<close>

theorem empty_body_not_accepted:
  "written (client (example_run 5 (peer (wire_lines
       [''HELO x'', ''MAIL FROM:<a@b>'', ''RCPT TO:<c@d>'', ''DATA'', ''.'', ''QUIT'']))))
     = [''220 localhost ESMTP'', ''250 localhost Hello 192.0.2.7:4321'', ''250 OK'',
        ''250 OK'', ''354 Start mail input; end with <CRLF>.<CRLF>'']
   \<and> seqState (client (example_run 5 (peer (wire_lines
       [''HELO x'', ''MAIL FROM:<a@b>'', ''RCPT TO:<c@d>'', ''DATA'', ''.'', ''QUIT'']))))
     = DATA_MODE
   \<and> queued (example_run 5 (peer (wire_lines
       [''HELO x'', ''MAIL FROM:<a@b>'', ''RCPT TO:<c@d>'', ''DATA'', ''.'', ''QUIT''])))
     = []
   \<and> incoming (conn (example_run 5 (peer (wire_lines
       [''HELO x'', ''MAIL FROM:<a@b>'', ''RCPT TO:<c@d>'', ''DATA'', ''.'', ''QUIT'']))))
     = wire_line ''QUIT''
   \<and> \<not> running (example_run 6 (peer (wire_lines
       [''HELO x'', ''MAIL FROM:<a@b>'', ''RCPT TO:<c@d>'', ''DATA'', ''.'', ''QUIT''])))
   \<and> written (client (example_run 6 (peer (wire_lines
       [''HELO x'', ''MAIL FROM:<a@b>'', ''RCPT TO:<c@d>'', ''DATA'', ''.'', ''QUIT'']))))
     = [''220 localhost ESMTP'', ''250 localhost Hello 192.0.2.7:4321'', ''250 OK'',
        ''250 OK'', ''354 Start mail input; end with <CRLF>.<CRLF>'']
   \<and> queued (example_run 6 (peer (wire_lines
       [''HELO x'', ''MAIL FROM:<a@b>'', ''RCPT TO:<c@d>'', ''DATA'', ''.'', ''QUIT''])))
     = []"
  by code_simp

text \<open>
  Claim C3. With a cap of one connection and one live session, the listener accepts a
  second socket: it is neither handed to a session nor closed, and the mutex stays
  locked. From then on the first session cannot take the mutex to decrement the
  counter, and the listener cannot take it for a third socket: nothing is admitted any
  more.
\<close>

theorem listener_blocked_after_cap:
  "map_option (\<lambda>g. (totalClientConnections g, map RemoteAddr (spawned g),
        map (\<lambda>c. (RemoteAddr c, closed c)) (refused g), clientMutex g)) listener_at_cap
     = Some (1, [''192.0.2.1:1001''], [(''192.0.2.2:1002'', False)], True)
   \<and> Option.bind listener_at_cap (decrementConnectionCounter (RemoteAddr first_peer)) = None
   \<and> Option.bind listener_at_cap (Start_accept 1 2 third_peer) = None"
  by code_simp

text \<open>
  Claim C4. Four rejected lines, an accepted NOOP and a fifth rejected line: the
  session leaves the loop after the fifth rejection, although the five rejections are
  not consecutive; the error count is never reset.
\<close>

theorem errors_need_not_be_consecutive:
  "written (client (example_run 6 (peer (wire_lines
       [''FOO'', ''FOO'', ''FOO'', ''FOO'', ''NOOP'', ''FOO'', ''QUIT'']))))
     = [''220 localhost ESMTP'', ''500 Syntax error, command unrecognized'',
        ''500 Syntax error, command unrecognized'', ''500 Syntax error, command unrecognized'',
        ''500 Syntax error, command unrecognized'', ''250 OK'',
        ''500 Syntax error, command unrecognized'']
   \<and> totalCommandErrors (example_run 6 (peer (wire_lines
       [''FOO'', ''FOO'', ''FOO'', ''FOO'', ''NOOP'', ''FOO'', ''QUIT''])))
     = 5
   \<and> \<not> running (example_run 6 (peer (wire_lines
       [''FOO'', ''FOO'', ''FOO'', ''FOO'', ''NOOP'', ''FOO'', ''QUIT''])))
   \<and> running (example_run 5 (peer (wire_lines
       [''FOO'', ''FOO'', ''FOO'', ''FOO'', ''NOOP'', ''FOO'', ''QUIT''])))"
  by code_simp

text \<open>
  Claim C5. After \<open>HELO x\<close> the command STARTTLS is accepted. With a peer that completes
  the handshake the session switches its reader to the TLS socket and marks the session
  as TLS, but it has written nothing for the command: no \<open>220 Ready to start TLS\<close>.
  With a peer whose handshake fails it writes \<open>221 Bye\<close> and leaves the loop.
\<close>

theorem STARTTLS_sends_no_220:
  "written (client (example_run 2 (peer (wire_lines [''HELO x'', ''STARTTLS'']))))
     = [''220 localhost ESMTP'', ''250 localhost Hello 192.0.2.7:4321'']
   \<and> isTLS (client (example_run 2 (peer (wire_lines [''HELO x'', ''STARTTLS'']))))
   \<and> reader (example_run 2 (peer (wire_lines [''HELO x'', ''STARTTLS''])))
     = ReadsTLSConn
   \<and> running (example_run 2 (peer (wire_lines [''HELO x'', ''STARTTLS''])))
   \<and> written (client (example_run 2
         ((peer (wire_lines [''HELO x'', ''STARTTLS'']))\<lparr>handshakeFails := True\<rparr>)))
     = [''220 localhost ESMTP'', ''250 localhost Hello 192.0.2.7:4321'', ''221 Bye'']
   \<and> \<not> running (example_run 2
         ((peer (wire_lines [''HELO x'', ''STARTTLS'']))\<lparr>handshakeFails := True\<rparr>))"
  by code_simp

text \<open>
  Claim C7. The reply to EHLO on the plain listener: the only line with a space after
  the code is \<open>250 8BITMIME\<close>, the fourth of seven, and the last line is
  \<open>250-STARTTLS\<close>. After a TLS upgrade STARTTLS is not advertised and the last line is
  \<open>250-HELP\<close>. Either way the reply ends with a hyphen line.
\<close>

theorem EHLO_reply_ends_with_hyphen_line:
  "written (client (example_run 1 (peer (wire_lines [''EHLO x'']))))
     = [''220 localhost ESMTP'', ''250-localhost Hello 192.0.2.7:4321'', ''250-SIZE 1024'',
        ''250-PIPELINING'', ''250 8BITMIME'', ''250-VRFY'', ''250-HELP'', ''250-STARTTLS'']
   \<and> take 4 (last (written (client (example_run 1 (peer (wire_lines [''EHLO x''])))))) = ''250-''
   \<and> written (client (example_run 3 (peer (wire_lines [''HELO x'', ''STARTTLS'', ''EHLO x'']))))
     = [''220 localhost ESMTP'', ''250 localhost Hello 192.0.2.7:4321'',
        ''250-localhost Hello 192.0.2.7:4321'', ''250-SIZE 1024'',
        ''250-PIPELINING'', ''250 8BITMIME'', ''250-VRFY'', ''250-HELP'']
   \<and> take 4 (last (written (client
        (example_run 3 (peer (wire_lines [''HELO x'', ''STARTTLS'', ''EHLO x'']))))))
     = ''250-''"
  by code_simp

section \<open>Results: the API controller\<close>


end
